theory Spec2Isabelle
  imports Complex_Main "HOL-Library.AList" "HOL-Library.Char_ord" "HOL-Library.List_Lexorder"
begin

section \<open>Python values, errors and arrays\<close>

text \<open>
  The variability engine of \<^verbatim>\<open>VariabilityMixin.py\<close> is embedded function by function.
  Python exceptions are values of \<open>error\<close>; a function that can raise returns
  \<open>error + 'a\<close>. Floating-point numbers are read as reals.
\<close>

datatype error =
    RuntimeError | KeyError | TypeError | ValueError | IndexError
  | AttributeError | UnboundLocalError | OverflowError | IOError

text \<open>
  What \<^verbatim>\<open>json.loads\<close> returns. \<open>JNull\<close> is Python's \<^verbatim>\<open>None\<close>; \<open>JObj\<close> carries the
  items of a dict, whose keys are distinct.
\<close>

datatype json =
    JNull | JBool bool | JInt int | JFloat real | JStr string
  | JArr "json list" | JObj "(string \<times> json) list"

text \<open>One entry of \<^verbatim>\<open>varParams_arr\<close>: \<^verbatim>\<open>None\<close> or a string.\<close>

datatype blob = BNone | BStr string

text \<open>The argument \<^verbatim>\<open>expmjd\<close>: \<^verbatim>\<open>None\<close>, a number, or a sequence of numbers.\<close>

datatype time = TNone | Scalar real | Vector "real list"

text \<open>
  A numpy array: its shape and its entries, read by index. \<open>zeros\<close> is \<^verbatim>\<open>numpy.zeros\<close>.
\<close>

record ndarray =
  shape :: "nat list"
  item :: "nat list \<Rightarrow> real"

definition zeros :: "nat list \<Rightarrow> ndarray" where
  "zeros sh = \<lparr>shape = sh, item = (\<lambda>_. 0)\<rparr>"

text \<open>
  \<^verbatim>\<open>a += b\<close> on arrays writes into \<open>a\<close>: \<open>b\<close> is broadcast to the shape of \<open>a\<close> (trailing
  axes aligned, an axis of length 1 repeated), and numpy raises \<^verbatim>\<open>ValueError\<close> when it
  cannot be.
\<close>

definition broadcastable :: "nat list \<Rightarrow> nat list \<Rightarrow> bool" where
  "broadcastable rs ls \<longleftrightarrow>
     length rs \<le> length ls \<and>
     list_all2 (\<lambda>r l. r = l \<or> r = 1) rs (drop (length ls - length rs) ls)"

definition bindex :: "nat list \<Rightarrow> nat list \<Rightarrow> nat list" where
  "bindex rs idx =
     map2 (\<lambda>r i. if r = 1 then 0 else i) rs (drop (length idx - length rs) idx)"

definition iadd :: "ndarray \<Rightarrow> ndarray \<Rightarrow> error + ndarray" where
  "iadd a b =
     (if broadcastable (shape b) (shape a)
      then Inr (a\<lparr>item := (\<lambda>idx. item a idx + item b (bindex (shape b) idx))\<rparr>)
      else Inl ValueError)"

text \<open>
  Parameter dictionaries: \<^verbatim>\<open>params[method_name][p_name]\<close> is a list with one slot per
  object of the batch. Dicts are association lists in insertion order.
\<close>

type_synonym pdict = "(string \<times> json list) list"
type_synonym ptable = "(string \<times> pdict) list"

section \<open>The instance and \<^verbatim>\<open>initializeVariability\<close>\<close>

text \<open>
  A cached light curve: the six interpolants in ugrizy order and the period.
\<close>

record lc_entry =
  splines :: "(real \<Rightarrow> real) list"
  period :: real

text \<open>
  The attributes of \<^verbatim>\<open>self\<close> that the engine reads and writes. \<open>obs_mjd\<close> is
  \<^verbatim>\<open>self.obs_metadata.mjd.TAI\<close> when the catalog has one. The three cache attributes
  exist only once \<open>variabilityInitialized\<close> is set.
\<close>

record inst =
  variabilityInitialized :: bool
  variabilityLcCache :: "(string \<times> lc_entry) list"
  variabilityCache :: bool
  variabilityDataDir :: "string option"
  obs_mjd :: "real option"

text \<open>\<open>env\<close> is \<^verbatim>\<open>os.environ.get("SIMS_SED_LIBRARY_DIR")\<close>.\<close>

definition initializeVariability ::
  "bool \<Rightarrow> string option \<Rightarrow> 'a inst_scheme \<Rightarrow> 'a inst_scheme" where
  "initializeVariability doCache env s =
     s\<lparr>variabilityInitialized := True, variabilityLcCache := [],
       variabilityCache := doCache, variabilityDataDir := env\<rparr>"

section \<open>\<^verbatim>\<open>applyVariability\<close>\<close>

text \<open>
  A registered variability method takes the instance, \<^verbatim>\<open>valid_dexes[0]\<close>, the parameter
  dict of its model and the time, and returns an array and the instance, or raises.
\<close>

type_synonym 'a evaluator =
  "'a inst_scheme \<Rightarrow> nat list \<Rightarrow> pdict \<Rightarrow> time \<Rightarrow> error + (ndarray \<times> 'a inst_scheme)"

text \<open>The initial \<^verbatim>\<open>deltaMag\<close> (lines 188-195).\<close>

definition init_deltaMag :: "nat \<Rightarrow> time \<Rightarrow> ndarray" where
  "init_deltaMag n expmjd =
     (case expmjd of
        Vector ts \<Rightarrow> zeros [6, n, length ts]
      | _ \<Rightarrow> zeros [6, n])"

text \<open>
  The call of every registered method on an empty chunk (lines 202-204); the results are
  dropped, an exception is not.
\<close>

fun dry_run :: "(string \<times> 'a evaluator) list \<Rightarrow> 'a inst_scheme \<Rightarrow> error + 'a inst_scheme" where
  "dry_run [] s = Inr s"
| "dry_run ((name, f) # reg) s =
     (case f s [] [] (Scalar 0) of
        Inl e \<Rightarrow> Inl e
      | Inr (_, s') \<Rightarrow> dry_run reg s')"


definition parse_cmd ::
  "(string \<Rightarrow> error + json) \<Rightarrow> blob \<Rightarrow> error + (string \<times> (string \<times> json) list)" where
  "parse_cmd loads b =
     (case b of
        BNone \<Rightarrow> Inr (''None'', [])
      | BStr s \<Rightarrow>
          if s = ''None'' then Inr (''None'', [])
          else (case loads s of
             Inl e \<Rightarrow> Inl e
           | Inr (JObj varCmd) \<Rightarrow>
               (let meth_key = (if ''varMethodName'' \<in> fst ` set varCmd
                                then ''varMethodName'' else ''m'');
                    par_key = (if ''pars'' \<in> fst ` set varCmd then ''pars'' else ''p'')
                in case map_of varCmd meth_key of
                     None \<Rightarrow> Inl KeyError
                   | Some (JStr m) \<Rightarrow>
                       (case map_of varCmd par_key of
                          None \<Rightarrow> Inl KeyError
                        | Some (JObj pars) \<Rightarrow> Inr (m, pars)
                        | Some _ \<Rightarrow> Inl TypeError)
                   | Some _ \<Rightarrow> Inl TypeError)
           | Inr _ \<Rightarrow> Inl TypeError))"

text \<open>
  Lines 252-254: a model seen for the first time gets a fresh dict with one list of
  \<^verbatim>\<open>None\<close> for each parameter name of the object that introduced it.
\<close>

definition init_model :: "nat \<Rightarrow> (string \<times> json) list \<Rightarrow> pdict" where
  "init_model n pars = fold (\<lambda>(p_name, _) d. AList.update p_name (replicate n JNull) d) pars []"

text \<open>
  Lines 257-258: \<^verbatim>\<open>params[m][p_name][ix] = value\<close> for each parameter of the object; a
  name that the model's dict does not have raises \<open>KeyError\<close>.
\<close>

fun assign_all :: "nat \<Rightarrow> (string \<times> json) list \<Rightarrow> pdict \<Rightarrow> error + pdict" where
  "assign_all ix [] d = Inr d"
| "assign_all ix ((p_name, v) # ps) d =
     (case map_of d p_name of
        None \<Rightarrow> Inl KeyError
      | Some xs \<Rightarrow>
          if ix < length xs
          then assign_all ix ps (AList.update p_name (xs[ix := v]) d)
          else Inl IndexError)"

text \<open>The loop of lines 224-258 over \<^verbatim>\<open>enumerate(varParams_arr)\<close>.\<close>

fun demux ::
  "(string \<Rightarrow> error + json) \<Rightarrow> nat \<Rightarrow> nat \<Rightarrow> blob list \<Rightarrow> string list \<times> ptable
     \<Rightarrow> error + (string list \<times> ptable)" where
  "demux loads n ix [] acc = Inr acc"
| "demux loads n ix (b # bs) (method_name_arr, params) =
     (case parse_cmd loads b of
        Inl e \<Rightarrow> Inl e
      | Inr (m, pars) \<Rightarrow>
          (let params1 = (if m \<notin> set method_name_arr
                          then AList.update m (init_model n pars) params else params)
           in case map_of params1 m of
                None \<Rightarrow> Inl KeyError
              | Some d \<Rightarrow>
                  (case assign_all ix pars d of
                     Inl e \<Rightarrow> Inl e
                   | Inr d' \<Rightarrow>
                       demux loads n (Suc ix) bs
                         (method_name_arr @ [m], AList.update m d' params1))))"

text \<open>
  \<^verbatim>\<open>numpy.where(numpy.char.equal(method_name, method_name_arr))[0]\<close> and
  \<^verbatim>\<open>numpy.unique(method_name_arr)\<close>.
\<close>

definition valid_dexes :: "string \<Rightarrow> string list \<Rightarrow> nat list" where
  "valid_dexes m method_name_arr =
     filter (\<lambda>i. method_name_arr ! i = m) [0..<length method_name_arr]"

definition unique :: "string list \<Rightarrow> string list" where
  "unique xs = sort (remdups xs)"

text \<open>The loop of lines 268-281 over the distinct method names.\<close>

fun dispatch ::
  "(string \<times> 'a evaluator) list \<Rightarrow> string list \<Rightarrow> ptable \<Rightarrow> string list
     \<Rightarrow> 'a inst_scheme \<Rightarrow> ndarray \<Rightarrow> time \<Rightarrow> error + (ndarray \<times> 'a inst_scheme)" where
  "dispatch reg method_name_arr params [] s deltaMag expmjd = Inr (deltaMag, s)"
| "dispatch reg method_name_arr params (m # ms) s deltaMag expmjd =
     (if m = ''None'' then dispatch reg method_name_arr params ms s deltaMag expmjd
      else
        (case (case expmjd of
                 TNone \<Rightarrow> (case obs_mjd s of None \<Rightarrow> Inl AttributeError
                                             | Some t \<Rightarrow> Inr (Scalar t))
               | _ \<Rightarrow> Inr expmjd) of
           Inl e \<Rightarrow> Inl e
         | Inr expmjd' \<Rightarrow>
             (case map_of reg m of
                None \<Rightarrow> Inl RuntimeError
              | Some f \<Rightarrow>
                  (case map_of params m of
                     None \<Rightarrow> Inl KeyError
                   | Some d \<Rightarrow>
                       (case f s (valid_dexes m method_name_arr) d expmjd' of
                          Inl e \<Rightarrow> Inl e
                        | Inr (r, s') \<Rightarrow>
                            (case iadd deltaMag r of
                               Inl e \<Rightarrow> Inl e
                             | Inr deltaMag' \<Rightarrow>
                                 dispatch reg method_name_arr params ms s' deltaMag' expmjd'))))))"

text \<open>
  \<^verbatim>\<open>applyVariability\<close> (lines 163-283). \<open>reg\<close> is \<^verbatim>\<open>self._methodRegistry\<close>, \<open>loads\<close> is
  \<^verbatim>\<open>json.loads\<close>, \<open>env\<close> the environment's light-curve directory.
\<close>

definition applyVariability ::
  "(string \<times> 'a evaluator) list \<Rightarrow> (string \<Rightarrow> error + json) \<Rightarrow> string option
     \<Rightarrow> 'a inst_scheme \<Rightarrow> blob list \<Rightarrow> time \<Rightarrow> error + (ndarray \<times> 'a inst_scheme)" where
  "applyVariability reg loads env s varParams_arr expmjd =
     (let s1 = (if variabilityInitialized s = False
                then initializeVariability True env s else s);
          deltaMag = init_deltaMag (length varParams_arr) expmjd
      in case (if length varParams_arr = 0 then dry_run reg s1 else Inr s1) of
           Inl e \<Rightarrow> Inl e
         | Inr s2 \<Rightarrow>
             (case demux loads (length varParams_arr) 0 varParams_arr ([], []) of
                Inl e \<Rightarrow> Inl e
              | Inr (method_name_arr, params) \<Rightarrow>
                  dispatch reg method_name_arr params (unique method_name_arr)
                    s2 deltaMag expmjd))"

text \<open>
  A decoder for two blobs of the documented format, standing for \<^verbatim>\<open>json.loads\<close> on them.
\<close>

definition example_loads :: "string \<Rightarrow> error + json" where
  \<open>example_loads s =
     (if s = ''{"m": "applyAmcvn", "p": {}}''
      then Inr (JObj [(''m'', JStr ''applyAmcvn''), (''p'', JObj [])])
      else if s = ''{"m": "applyAmcvn", "p": {"does_burst": 1}}''
      then Inr (JObj [(''m'', JStr ''applyAmcvn''), (''p'', JObj [(''does_burst'', JInt 1)])])
      else Inl ValueError)\<close>

section \<open>\<^verbatim>\<open>applyAgn\<close> and the cache of AGN light curves\<close>

text \<open>
  \<^verbatim>\<open>numpy.random.RandomState(seed)\<close> is a stream of standard normal draws fixed by the
  seed: \<open>gauss seed k\<close> is its \<open>k\<close>-th draw, a parameter of the model. The state of a
  generator is the seed and the number of draws taken; \<^verbatim>\<open>rng.normal(0., 1., n)\<close> takes the
  next \<open>n\<close>.
\<close>

record rng_state =
  rng_seed :: int
  rng_pos :: nat

definition normal :: "(int \<Rightarrow> nat \<Rightarrow> real) \<Rightarrow> rng_state \<Rightarrow> nat \<Rightarrow> real list \<times> rng_state" where
  "normal gauss r n =
     (map (\<lambda>i. gauss (rng_seed r) (rng_pos r + i)) [0..<n], r\<lparr>rng_pos := rng_pos r + n\<rparr>)"

text \<open>
  An entry of \<^verbatim>\<open>_AGN_LC_CACHE\<close>: the keys \<^verbatim>\<open>'mjd'\<close>, \<^verbatim>\<open>'rng'\<close> and \<^verbatim>\<open>'dx'\<close>, the last
  with one value per band in ugrizy order.
\<close>

record agn_entry =
  mjd :: real
  rng :: rng_state
  dx :: "real list"

text \<open>
  \<^verbatim>\<open>agn_ID\<close> (lines 873-875) is the string
  \<^verbatim>\<open>'%d_%.12f_..._%.12f' % (seed, sf_u, ..., sf_y, tau, toff)\<close>. A number printed with
  \<^verbatim>\<open>%.12f\<close> is its sign and its magnitude rounded to twelve decimals, so the model keeps
  these instead of the characters: two identifiers are equal exactly when the strings are.
\<close>

type_synonym agn_id = "int \<times> (bool \<times> int) list"
type_synonym agn_cache = "(agn_id \<times> agn_entry) list"

definition round_half_even :: "real \<Rightarrow> int" where
  "round_half_even x =
     (let f = \<lfloor>x\<rfloor> in
      if x - of_int f < 1 / 2 then f
      else if x - of_int f > 1 / 2 then f + 1
      else if even f then f else f + 1)"

definition fmt12 :: "real \<Rightarrow> bool \<times> int" where
  "fmt12 x = (x < 0, round_half_even (\<bar>x\<bar> * 10 ^ 12))"

definition agn_ID :: "int \<Rightarrow> real list \<Rightarrow> real \<Rightarrow> real \<Rightarrow> agn_id" where
  "agn_ID seed sfint tau toff = (seed, map fmt12 (sfint @ [tau, toff]))"

definition reset_agn_lc_cache :: agn_cache where
  "reset_agn_lc_cache = []"

text \<open>
  The arrays that \<^verbatim>\<open>applyAgn\<close> takes from \<^verbatim>\<open>params\<close> (lines 846-854), after
  \<^verbatim>\<open>astype(float)\<close>; each has one slot per object of the batch, and the slots of objects
  outside \<^verbatim>\<open>valid_dexes\<close> are never read.
\<close>

record agn_params =
  toff_arr :: "real list"
  seed_arr :: "int list"
  tau_arr :: "real list"
  sfu_arr :: "real list"
  sfg_arr :: "real list"
  sfr_arr :: "real list"
  sfi_arr :: "real list"
  sfz_arr :: "real list"
  sfy_arr :: "real list"

definition nth_e :: "'a list \<Rightarrow> nat \<Rightarrow> error + 'a" where
  "nth_e xs i = (if i < length xs then Inr (xs ! i) else Inl IndexError)"

text \<open>Lines 858-868: \<open>toff\<close>, \<open>seed\<close>, \<open>tau\<close> and the six \<open>sfint\<close> of object \<open>ix\<close>.\<close>

definition read_agn :: "agn_params \<Rightarrow> nat \<Rightarrow> error + (real \<times> int \<times> real \<times> real list)" where
  "read_agn p ix =
     (if ix < length (toff_arr p) \<and> ix < length (seed_arr p) \<and> ix < length (tau_arr p) \<and>
         ix < length (sfu_arr p) \<and> ix < length (sfg_arr p) \<and> ix < length (sfr_arr p) \<and>
         ix < length (sfi_arr p) \<and> ix < length (sfz_arr p) \<and> ix < length (sfy_arr p)
      then Inr (toff_arr p ! ix, seed_arr p ! ix, tau_arr p ! ix,
                [sfu_arr p ! ix, sfg_arr p ! ix, sfr_arr p ! ix,
                 sfi_arr p ! ix, sfz_arr p ! ix, sfy_arr p ! ix])
      else Inl IndexError)"

text \<open>
  Line 923, one step of the walk from the displacement \<open>dx1\<close> with the scaled draw \<open>e\<close>,
  and line 926, the value \<open>dm_val\<close> read between the last two displacements.
\<close>

definition step :: "real \<Rightarrow> real \<Rightarrow> real \<Rightarrow> real \<Rightarrow> real" where
  "step dt sf dx1 e = - dx1 * dt + sf * e + dx1"

definition dm_val :: "real \<Rightarrow> real \<Rightarrow> real \<Rightarrow> real \<Rightarrow> real \<Rightarrow> real" where
  "dm_val endepoch x1 x2 dx1 dx2 = (endepoch * (dx1 - dx2) + dx2 * x1 - dx1 * x2) / (x1 - x2)"

text \<open>
  Lines 918-923, the walk of one band over the draws \<open>es\<close>. The pair is the local
  variables \<open>(dx1, dx2)\<close>; \<open>dx1\<close> is unbound (\<open>None\<close>) until the loop body has run once in
  this call of \<^verbatim>\<open>applyAgn\<close>.
\<close>

fun walk :: "real \<Rightarrow> real \<Rightarrow> real list \<Rightarrow> real option \<times> real \<Rightarrow> real option \<times> real" where
  "walk dt sf [] (dx1, dx2) = (dx1, dx2)"
| "walk dt sf (e # es) (dx1, dx2) = walk dt sf es (Some dx2, step dt sf dx2 e)"

text \<open>
  Lines 917-930, the loop over the six bands: for each band its structure function and
  its starting displacement. It returns the six \<open>dm_val\<close>, the six \<open>dx_cached\<close> and the
  variable \<open>dx1\<close>; reading an unbound \<open>dx1\<close> on line 926 raises.
\<close>

fun bands ::
  "real \<Rightarrow> real list \<Rightarrow> real \<Rightarrow> real \<Rightarrow> real \<Rightarrow> (real \<times> real) list \<Rightarrow> real option
     \<Rightarrow> error + (real list \<times> real list \<times> real option)" where
  "bands dt es endepoch x1 x2 [] dx1 = Inr ([], [], dx1)"
| "bands dt es endepoch x1 x2 ((sf, dx_0) # rest) dx1 =
     (case walk dt sf es (dx1, dx_0) of
        (None, _) \<Rightarrow> Inl UnboundLocalError
      | (Some dx1', dx2) \<Rightarrow>
          (case bands dt es endepoch x1 x2 rest (Some dx1') of
             Inl e \<Rightarrow> Inl e
           | Inr (dms, dxs, dx1_end) \<Rightarrow>
               Inr (dm_val endepoch x1 x2 dx1' dx2 # dms, dx2 # dxs, dx1_end)))"

text \<open>
  Lines 877-897: where the walk starts. A cached entry whose time is earlier than the
  requested time is resumed: its generator, its time and its displacements. Otherwise the
  walk starts at \<open>toff\<close> with a generator seeded afresh and zero displacements; a seed
  outside \<open>[0, 2^32)\<close> is refused by \<^verbatim>\<open>RandomState\<close>.
\<close>

definition agn_start ::
  "agn_cache \<Rightarrow> agn_id \<Rightarrow> int \<Rightarrow> real \<Rightarrow> real \<Rightarrow> error + (rng_state \<times> real \<times> real list)" where
  "agn_start cache agn_id seed toff expmjd_val =
     (let resumption = (case map_of cache agn_id of
                          None \<Rightarrow> None
                        | Some e \<Rightarrow> if mjd e < expmjd_val then Some e else None)
      in (case resumption of
            Some e \<Rightarrow> Inr (rng e, mjd e, dx e)
          | None \<Rightarrow>
              if seed < 0 \<or> 2 ^ 32 \<le> seed then Inl ValueError
              else Inr (\<lparr>rng_seed = seed, rng_pos = 0\<rparr>, toff, replicate 6 0)))"

text \<open>
  Lines 899-930: the steps from the start to the requested time. \<open>expmjd\<close> is the
  argument of \<^verbatim>\<open>applyAgn\<close>, of which the error message of line 904 prints a number:
  formatting a sequence of more than one time with \<^verbatim>\<open>%e\<close> raises \<open>TypeError\<close> in place of
  the \<open>RuntimeError\<close>. With \<open>tau = 0\<close> the quotient \<^verbatim>\<open>endepoch/dt\<close> is infinite or not a
  number and \<^verbatim>\<open>math.ceil\<close> raises; a negative \<open>nbins\<close> is refused by \<^verbatim>\<open>rng.normal\<close>.
  The result is the six \<open>dm_val\<close>, the entry that lines 941-943 write to the cache, and
  the variable \<open>dx1\<close>.
\<close>

definition agn_steps ::
  "(int \<Rightarrow> nat \<Rightarrow> real) \<Rightarrow> time \<Rightarrow> real \<Rightarrow> real \<Rightarrow> real list \<Rightarrow> real option
     \<Rightarrow> rng_state \<Rightarrow> real \<Rightarrow> real list
     \<Rightarrow> error + (real list \<times> agn_entry \<times> real option)" where
  "agn_steps gauss expmjd expmjd_val tau sfint dx1 rng0 start_date dx_0 =
     (let endepoch = expmjd_val - start_date in
      if endepoch < 0
      then Inl (case expmjd of
                  Vector ts \<Rightarrow> if length ts = 1 then RuntimeError else TypeError
                | _ \<Rightarrow> RuntimeError)
      else if tau = 0
      then Inl (if endepoch = 0 then ValueError else OverflowError)
      else
        (let dt = tau / 100;
             nbins = \<lceil>endepoch / dt\<rceil>;
             x1 = (of_int nbins - 1) * dt;
             x2 = of_int nbins * dt;
             dt' = dt / tau
         in if nbins < 0 then Inl ValueError
            else
              (let draws = fst (normal gauss rng0 (nat nbins));
                   rng1 = snd (normal gauss rng0 (nat nbins));
                   es = map (\<lambda>e. e * sqrt dt') draws
               in (case bands dt' es endepoch x1 x2 (zip sfint dx_0) dx1 of
                    Inl e \<Rightarrow> Inl e
                  | Inr (dm_vals, dx_cached, dx1') \<Rightarrow>
                      Inr (dm_vals,
                           \<lparr>mjd = start_date + x2, rng = rng1, dx = dx_cached\<rparr>,
                           dx1')))))"

text \<open>
  Lines 932-943: the cache is emptied when it holds more than 1000000 entries, then the
  entry of this AGN is written.
\<close>

definition agn_store :: "agn_cache \<Rightarrow> agn_id \<Rightarrow> agn_entry \<Rightarrow> agn_cache" where
  "agn_store cache agn_id entry =
     AList.update agn_id entry
       (if length cache > 1000000 then reset_agn_lc_cache else cache)"

text \<open>Lines 870-943, the body of the loops for one object at one time.\<close>

definition agn_one ::
  "(int \<Rightarrow> nat \<Rightarrow> real) \<Rightarrow> time \<Rightarrow> real \<Rightarrow> real \<Rightarrow> int \<Rightarrow> real \<Rightarrow> real list
     \<Rightarrow> agn_cache \<Rightarrow> real option \<Rightarrow> error + (real list \<times> agn_cache \<times> real option)" where
  "agn_one gauss expmjd expmjd_val toff seed tau sfint cache dx1 =
     (case agn_start cache (agn_ID seed sfint tau toff) seed toff expmjd_val of
        Inl e \<Rightarrow> Inl e
      | Inr (rng0, start_date, dx_0) \<Rightarrow>
          (case agn_steps gauss expmjd expmjd_val tau sfint dx1 rng0 start_date dx_0 of
             Inl e \<Rightarrow> Inl e
           | Inr (dm_vals, entry, dx1') \<Rightarrow>
               Inr (dm_vals, agn_store cache (agn_ID seed sfint tau toff) entry, dx1')))"

text \<open>
  Lines 927-930: the six values go to \<^verbatim>\<open>dMags[ik][ix]\<close>, or to
  \<^verbatim>\<open>dMags[ik][ix][i_time]\<close> when the time is a sequence.
\<close>

definition store_dm :: "ndarray \<Rightarrow> time \<Rightarrow> nat \<Rightarrow> nat \<Rightarrow> real list \<Rightarrow> error + ndarray" where
  "store_dm dMags expmjd ix i_time dm_vals =
     (if ix < shape dMags ! 1
      then Inr (dMags\<lparr>item :=
             (\<lambda>idx. case expmjd of
                Vector ts \<Rightarrow>
                  (if length idx = 3 \<and> idx ! 0 < 6 \<and> idx ! 1 = ix \<and> idx ! 2 = i_time
                   then dm_vals ! (idx ! 0) else item dMags idx)
              | _ \<Rightarrow>
                  (if length idx = 2 \<and> idx ! 0 < 6 \<and> idx ! 1 = ix
                   then dm_vals ! (idx ! 0) else item dMags idx))\<rparr>)
      else Inl IndexError)"

text \<open>
  The loop of line 857 over \<^verbatim>\<open>valid_dexes[0]\<close> and the loop of line 856 over the times.
  The cache is a global: what was written before an exception stays written, so the
  cache is returned in either case.
\<close>

fun agn_objects ::
  "(int \<Rightarrow> nat \<Rightarrow> real) \<Rightarrow> time \<Rightarrow> agn_params \<Rightarrow> nat \<Rightarrow> real \<Rightarrow> nat list
     \<Rightarrow> ndarray \<times> agn_cache \<times> real option
     \<Rightarrow> (error + ndarray \<times> real option) \<times> agn_cache" where
  "agn_objects gauss expmjd p i_time expmjd_val [] (dMags, cache, dx1) =
     (Inr (dMags, dx1), cache)"
| "agn_objects gauss expmjd p i_time expmjd_val (ix # ixs) (dMags, cache, dx1) =
     (case read_agn p ix of
        Inl e \<Rightarrow> (Inl e, cache)
      | Inr (toff, seed, tau, sfint) \<Rightarrow>
          (case agn_one gauss expmjd expmjd_val toff seed tau sfint cache dx1 of
             Inl e \<Rightarrow> (Inl e, cache)
           | Inr (dm_vals, cache', dx1') \<Rightarrow>
               (case store_dm dMags expmjd ix i_time dm_vals of
                  Inl e \<Rightarrow> (Inl e, cache)
                | Inr dMags' \<Rightarrow>
                    agn_objects gauss expmjd p i_time expmjd_val ixs (dMags', cache', dx1'))))"

fun agn_times ::
  "(int \<Rightarrow> nat \<Rightarrow> real) \<Rightarrow> time \<Rightarrow> agn_params \<Rightarrow> nat list \<Rightarrow> nat \<Rightarrow> real list
     \<Rightarrow> ndarray \<times> agn_cache \<times> real option \<Rightarrow> (error + ndarray) \<times> agn_cache" where
  "agn_times gauss expmjd p valid i_time [] (dMags, cache, dx1) = (Inr dMags, cache)"
| "agn_times gauss expmjd p valid i_time (expmjd_val # rest) st =
     (case agn_objects gauss expmjd p i_time expmjd_val valid st of
        (Inl e, cache') \<Rightarrow> (Inl e, cache')
      | (Inr (dMags', dx1'), cache') \<Rightarrow>
          agn_times gauss expmjd p valid (Suc i_time) rest (dMags', cache', dx1'))"

text \<open>
  \<^verbatim>\<open>applyAgn\<close> (lines 832-945). \<open>params\<close> is \<open>None\<close> for the empty dict, with which the
  method returns \<^verbatim>\<open>numpy.array([[],[],[],[],[],[]])\<close>. \<open>cache\<close> is the global
  \<^verbatim>\<open>_AGN_LC_CACHE\<close>.
\<close>

definition applyAgn ::
  "(int \<Rightarrow> nat \<Rightarrow> real) \<Rightarrow> agn_cache \<Rightarrow> nat list \<Rightarrow> agn_params option \<Rightarrow> time
     \<Rightarrow> (error + ndarray) \<times> agn_cache" where
  "applyAgn gauss cache valid params expmjd =
     (case params of
        None \<Rightarrow> (Inr (zeros [6, 0]), cache)
      | Some p \<Rightarrow>
          (case expmjd of
             TNone \<Rightarrow> (Inl TypeError, cache)
           | Scalar t \<Rightarrow>
               agn_times gauss expmjd p valid 0 [t]
                 (zeros [6, length (toff_arr p)], cache, None)
           | Vector ts \<Rightarrow>
               agn_times gauss expmjd p valid 0 ts
                 (zeros [6, length (toff_arr p), length ts], cache, None)))"

text \<open>
  Notions used to state the properties of \<^verbatim>\<open>applyAgn\<close>: the draws of line 914 once scaled
  by \<open>sqrt (1/100)\<close>, the array \<^verbatim>\<open>dMags\<close> after one object has been written for a scalar
  time, a batch of one AGN, and a stream of draws to evaluate it with.
\<close>

definition scaled_draws :: "(int \<Rightarrow> nat \<Rightarrow> real) \<Rightarrow> int \<Rightarrow> nat \<Rightarrow> nat \<Rightarrow> real list" where
  "scaled_draws gauss s pos n = map (\<lambda>i. gauss s (pos + i) * (1 / 10)) [0..<n]"

definition dm_array :: "nat \<Rightarrow> nat \<Rightarrow> real list \<Rightarrow> ndarray" where
  "dm_array n ix dm_vals =
     \<lparr>shape = [6, n],
      item = (\<lambda>idx. if length idx = 2 \<and> idx ! 0 < 6 \<and> idx ! 1 = ix
                     then dm_vals ! (idx ! 0) else 0)\<rparr>"

definition example_agn :: agn_params where
  "example_agn =
     \<lparr>toff_arr = [0], seed_arr = [1], tau_arr = [100],
      sfu_arr = [1], sfg_arr = [1], sfr_arr = [1], sfi_arr = [1], sfz_arr = [1], sfy_arr = [1]\<rparr>"

definition example_gauss :: "int \<Rightarrow> nat \<Rightarrow> real" where
  "example_gauss s k = (if even k then 1 else - 1 / 2)"

section \<open>Properties of \<^verbatim>\<open>applyVariability\<close>\<close>

subsection \<open>Shape of the result\<close>

lemma iadd_shape: "iadd a b = Inr c \<Longrightarrow> shape c = shape a"
  by (auto simp: iadd_def split: if_splits)

lemma dispatch_shape:
  "dispatch reg names params ms s d t = Inr (d', s') \<Longrightarrow> shape d' = shape d"
proof (induction ms arbitrary: s d t)
  case Nil
  then show ?case by simp
next
  case (Cons m ms)
  show ?case
  proof (cases "m = ''None''")
    case True
    with Cons show ?thesis by simp
  next
    case False
    with Cons.prems obtain t' r s1 d1 where
      "iadd d r = Inr d1" and "dispatch reg names params ms s1 d1 t' = Inr (d', s')"
      by (auto split: sum.splits option.splits time.splits prod.splits)
    then show ?thesis using Cons.IH iadd_shape by metis
  qed
qed

lemma shape_init_deltaMag:
  "shape (init_deltaMag n t) = (case t of Vector ts \<Rightarrow> [6, n, length ts] | _ \<Rightarrow> [6, n])"
  by (simp add: init_deltaMag_def zeros_def split: time.splits)

text \<open>
  Claim C3. Whenever \<^verbatim>\<open>applyVariability\<close> returns, for a batch of any length \<open>N\<close>
  (zero included), the array has shape \<open>(6, N)\<close> when the time is a number (or
  \<^verbatim>\<open>None\<close>) and \<open>(6, N, T)\<close> when it is a sequence of \<open>T\<close> times: the array is created
  with that shape and every method's result is added in place.
\<close>

theorem applyVariability_shape:
  "applyVariability reg loads env s varParams_arr expmjd = Inr (deltaMag, s') \<Longrightarrow>
   shape deltaMag =
     (case expmjd of
        Vector ts \<Rightarrow> [6, length varParams_arr, length ts]
      | _ \<Rightarrow> [6, length varParams_arr])"
proof -
  assume a: "applyVariability reg loads env s varParams_arr expmjd = Inr (deltaMag, s')"
  then obtain names params s2 where
    "dispatch reg names params (unique names) s2
       (init_deltaMag (length varParams_arr) expmjd) expmjd = Inr (deltaMag, s')"
    unfolding applyVariability_def Let_def
    by (auto split: sum.splits prod.splits)
  then have "shape deltaMag = shape (init_deltaMag (length varParams_arr) expmjd)"
    by (rule dispatch_shape)
  then show ?thesis by (simp add: shape_init_deltaMag)
qed

theorem applyVariability_shape_witness:
  "\<exists>d s'. applyVariability [] (\<lambda>_. Inl ValueError) None
      \<lparr>variabilityInitialized = False, variabilityLcCache = [], variabilityCache = False,
        variabilityDataDir = None, obs_mjd = None\<rparr>
      [BNone, BNone] (Vector [1, 2, 3]) = Inr (d, s') \<and> shape d = [6, 2, 3]"
proof -
  let ?s = "\<lparr>variabilityInitialized = False, variabilityLcCache = [], variabilityCache = False,
        variabilityDataDir = None, obs_mjd = None\<rparr>"
  have e: "applyVariability [] (\<lambda>_. Inl ValueError) None ?s [BNone, BNone] (Vector [1, 2, 3])
      = Inr (init_deltaMag 2 (Vector [1, 2, 3]), initializeVariability True None ?s)"
    by (simp add: applyVariability_def parse_cmd_def init_model_def unique_def numeral_2_eq_2)
  from applyVariability_shape [OF e] show ?thesis using e by simp
qed

subsection \<open>Null blobs\<close>









subsection \<open>A parameter that only a later object of a model has\<close>

text \<open>
  Claim C7. Two objects with the same model, the second with a parameter the first does
  not have: the assignment of line 258 raises \<open>KeyError\<close>, because the lists of a model
  are created (lines 251-254) from the parameter names of its first object only. In the
  other order the object without the parameter keeps \<^verbatim>\<open>None\<close> in its slot.
\<close>

theorem late_parameter_KeyError:
  \<open>applyVariability reg example_loads env s
     [BStr ''{"m": "applyAmcvn", "p": {}}'',
      BStr ''{"m": "applyAmcvn", "p": {"does_burst": 1}}''] expmjd = Inl KeyError
   \<and> demux example_loads 2 0
     [BStr ''{"m": "applyAmcvn", "p": {"does_burst": 1}}'',
      BStr ''{"m": "applyAmcvn", "p": {}}''] ([], [])
     = Inr ([''applyAmcvn'', ''applyAmcvn''],
            [(''applyAmcvn'', [(''does_burst'', [JInt 1, JNull])])])\<close>
  by (simp add: applyVariability_def example_loads_def parse_cmd_def init_model_def
        numeral_2_eq_2)

section \<open>Properties of \<^verbatim>\<open>applyAgn\<close>\<close>

subsection \<open>The walk in closed form\<close>

lemma sqrt_hundredth: "sqrt (1 / 100) = 1 / 10"
proof -
  have "(1 / 100 :: real) = (1 / 10)\<^sup>2" by (simp add: power2_eq_square)
  then show ?thesis by (metis real_sqrt_abs abs_of_nonneg zero_le_divide_1_iff zero_le_numeral)
qed

lemma sqrt_dt: "tau \<noteq> 0 \<Longrightarrow> sqrt (tau / 100 / tau) = 1 / 10"
  by (simp add: sqrt_hundredth)

lemma walk_append: "walk dt sf (es1 @ es2) st = walk dt sf es2 (walk dt sf es1 st)"
  by (induction es1 arbitrary: st) (auto)

lemma walk_snd: "snd (walk dt sf es (d, x)) = foldl (step dt sf) x es"
  by (induction es arbitrary: d x) (auto)

lemma walk_fst: "es \<noteq> [] \<Longrightarrow> fst (walk dt sf es (d, x)) = Some (foldl (step dt sf) x (butlast es))"
proof (induction es arbitrary: d x)
  case Nil
  then show ?case by simp
next
  case (Cons e es)
  show ?case
  proof (cases "es = []")
    case True
    then show ?thesis by simp
  next
    case False
    with Cons.IH [OF False] show ?thesis by simp
  qed
qed

lemma walk_nonempty:
  "es \<noteq> [] \<Longrightarrow> walk dt sf es (d, x) = (Some (foldl (step dt sf) x (butlast es)), foldl (step dt sf) x es)"
  by (metis walk_fst walk_snd prod.collapse)

lemma bands_nonempty:
  "es \<noteq> [] \<Longrightarrow>
   bands dt es endepoch x1 x2 sfd dx1 =
     Inr (map (\<lambda>(sf, d0). dm_val endepoch x1 x2 (foldl (step dt sf) d0 (butlast es))
                                               (foldl (step dt sf) d0 es)) sfd,
          map (\<lambda>(sf, d0). foldl (step dt sf) d0 es) sfd,
          if sfd = [] then dx1
          else Some (foldl (step dt (fst (last sfd))) (snd (last sfd)) (butlast es)))"
  by (induction sfd arbitrary: dx1) (auto simp: walk_nonempty)

lemma bands_empty_None:
  "sfd \<noteq> [] \<Longrightarrow> bands dt [] endepoch x1 x2 sfd None = Inl UnboundLocalError"
  by (cases sfd) auto

lemma agn_steps_run:
  assumes "tau \<noteq> 0" "start \<le> t" "dt = tau / 100" "n = \<lceil>(t - start) / dt\<rceil>" "1 \<le> n"
    "D = scaled_draws g s p (nat n)"
  shows "agn_steps g E t tau sf d1 \<lparr>rng_seed = s, rng_pos = p\<rparr> start dx0 =
     Inr (map (\<lambda>(sf, d0). dm_val (t - start) ((of_int n - 1) * dt) (of_int n * dt)
                  (foldl (step (1 / 100) sf) d0 (butlast D))
                  (foldl (step (1 / 100) sf) d0 D))
              (zip sf dx0),
          \<lparr>mjd = start + of_int n * dt,
           rng = \<lparr>rng_seed = s, rng_pos = p + nat n\<rparr>,
           dx = map (\<lambda>(sf, d0). foldl (step (1 / 100) sf) d0 D) (zip sf dx0)\<rparr>,
          if zip sf dx0 = [] then d1
          else Some (foldl (step (1 / 100) (fst (last (zip sf dx0)))) (snd (last (zip sf dx0)))
                       (butlast D)))"
proof -
  have dtt: "dt / tau = 1 / 100" using assms(1,3) by simp
  have es: "map (\<lambda>e. e * sqrt (1 / 100)) (fst (normal g \<lparr>rng_seed = s, rng_pos = p\<rparr> (nat n))) = D"
    by (simp add: normal_def scaled_draws_def sqrt_hundredth comp_def assms(6))
  have nn: "D \<noteq> []"
    using assms(5) by (simp add: scaled_draws_def assms(6))
  have nb: "\<lceil>(t - start) / dt\<rceil> = n" using assms(4) by simp
  have e0: "\<not> t - start < 0" using assms(2) by simp
  have n0: "\<not> n < 0" using assms(5) by simp
  have r1: "snd (normal g \<lparr>rng_seed = s, rng_pos = p\<rparr> (nat n)) = \<lparr>rng_seed = s, rng_pos = p + nat n\<rparr>"
    by (simp add: normal_def)
  show ?thesis
    unfolding agn_steps_def Let_def assms(3) [symmetric] nb dtt es r1 bands_nonempty [OF nn]
    using e0 n0 assms(1) by simp
qed

lemma upt_split: "[0..<a + b] = [0..<a] @ map (\<lambda>i. a + i) [0..<b]"
proof -
  have "map (\<lambda>i. a + i) [0..<b] = map (\<lambda>i. i + a) [0..<b]"
    by (simp add: add.commute)
  also have "\<dots> = [a..<b + a]" by (rule map_add_upt)
  finally have m: "map (\<lambda>i. a + i) [0..<b] = [a..<a + b]" by (simp add: add.commute)
  have "[0..<a + b] = [0..<a] @ [a..<a + b]" by (rule upt_add_eq_append) simp
  with m show ?thesis by simp
qed

lemma scaled_draws_add:
  "scaled_draws g s 0 (a + b) = scaled_draws g s 0 a @ scaled_draws g s a b"
  unfolding scaled_draws_def upt_split by (simp add: comp_def)

lemma zip_map_zip:
  "map (\<lambda>(s, d). F s d) (zip sf (map (\<lambda>(s, d0). G s d0) (zip sf zs)))
     = map (\<lambda>(s, d0). F s (G s d0)) (zip sf zs)"
proof (induction sf arbitrary: zs)
  case Nil
  then show ?case by simp
next
  case (Cons a sf)
  then show ?case by (cases zs) auto
qed

lemma dm_val_shift:
  "x1 \<noteq> x2 \<Longrightarrow> dm_val (e - c) (x1 - c) (x2 - c) a b = dm_val e x1 x2 a b"
  by (simp add: dm_val_def field_simps)

lemma agn_start_fresh:
  "map_of c k = None \<Longrightarrow>
   agn_start c k seed toff t =
     (if seed < 0 \<or> 2 ^ 32 \<le> seed then Inl ValueError
      else Inr (\<lparr>rng_seed = seed, rng_pos = 0\<rparr>, toff, replicate 6 0))"
  by (simp add: agn_start_def)

lemma agn_start_late:
  "map_of c k = Some e \<Longrightarrow> \<not> mjd e < t \<Longrightarrow>
   agn_start c k seed toff t =
     (if seed < 0 \<or> 2 ^ 32 \<le> seed then Inl ValueError
      else Inr (\<lparr>rng_seed = seed, rng_pos = 0\<rparr>, toff, replicate 6 0))"
  by (simp add: agn_start_def)

lemma agn_start_resume:
  "map_of c k = Some e \<Longrightarrow> mjd e < t \<Longrightarrow> agn_start c k seed toff t = Inr (rng e, mjd e, dx e)"
  by (simp add: agn_start_def)

lemma agn_steps_few:
  assumes "\<lceil>(t - start) / (tau / 100)\<rceil> < 1" "sf \<noteq> []" "dx0 \<noteq> []"
  shows "isl (agn_steps g E t tau sf None r0 start dx0)"
proof -
  have z: "zip sf dx0 \<noteq> []" using assms(2,3) by (cases sf; cases dx0) auto
  show ?thesis
  proof (cases "\<lceil>(t - start) / (tau / 100)\<rceil> < 0")
    case True
    then show ?thesis unfolding agn_steps_def Let_def by simp
  next
    case False
    with assms(1) have n0: "\<lceil>(t - start) / (tau / 100)\<rceil> = 0" by linarith
    have b: "bands (tau / 100 / tau) [] (t - start) ((of_int 0 - 1) * (tau / 100))
        (of_int 0 * (tau / 100)) (zip sf dx0) None = Inl UnboundLocalError"
      by (rule bands_empty_None [OF z])
    have d: "fst (normal g r0 (nat 0)) = []" by (simp add: normal_def)
    show ?thesis unfolding agn_steps_def Let_def n0 d list.map b
      by (simp split: if_splits)
  qed
qed

lemma agn_steps_early:
  "t < start \<Longrightarrow> isl (agn_steps g E t tau sf d1 r0 start dx0)"
  unfolding agn_steps_def Let_def by simp

lemma agn_steps_tau0:
  "isl (agn_steps g E t 0 sf d1 r0 start dx0)"
  unfolding agn_steps_def Let_def by simp

lemma map_of_agn_store: "map_of (agn_store c k e) k = Some e"
  by (simp add: agn_store_def update_conv')

lemma resumed_equals_direct:
  fixes tau :: real
  assumes tau: "0 < tau" and n1: "1 \<le> n1" and n1_def: "n1 = \<lceil>(t1 - toff) / (tau / 100)\<rceil>"
    and lt: "toff + of_int n1 * (tau / 100) < t2"
  shows "map_sum id fst
           (agn_steps g E t2 tau sf d1 \<lparr>rng_seed = seed, rng_pos = 0 + nat n1\<rparr>
              (toff + of_int n1 * (tau / 100))
              (map (\<lambda>(s, d0). foldl (step (1 / 100) s) d0 (scaled_draws g seed 0 (nat n1)))
                 (zip sf zs)))
       = map_sum id fst
           (agn_steps g E t2 tau sf d1' \<lparr>rng_seed = seed, rng_pos = 0\<rparr> toff zs)"
proof -
  define dt where "dt = tau / 100"
  define M where "M = toff + of_int n1 * dt"
  define n2 where "n2 = \<lceil>(t2 - M) / dt\<rceil>"
  define n where "n = \<lceil>(t2 - toff) / dt\<rceil>"
  have dt: "0 < dt" using tau by (simp add: dt_def)
  have Mlt: "M < t2" using lt by (simp add: M_def dt_def)
  have q: "(t2 - M) / dt = (t2 - toff) / dt - of_int n1"
    using dt by (simp add: M_def field_simps)
  have n_sum: "n = n1 + n2"
    unfolding n_def n2_def q by (simp add: ceiling_diff_of_int)
  have "0 < (t2 - M) / dt" using Mlt dt by simp
  then have n2: "1 \<le> n2" unfolding n2_def by linarith
  have n_pos: "1 \<le> n" using n1 n2 n_sum by simp
  have nat_sum: "nat n = nat n1 + nat n2" using n1 n2 n_sum by simp
  have toff_le: "toff \<le> t2"
  proof -
    have "0 \<le> of_int n1 * dt" using n1 dt by simp
    then show ?thesis using Mlt by (simp add: M_def)
  qed
  define D1 where "D1 = scaled_draws g seed 0 (nat n1)"
  define D2 where "D2 = scaled_draws g seed (nat n1) (nat n2)"
  have D: "scaled_draws g seed 0 (nat n) = D1 @ D2"
    unfolding nat_sum D1_def D2_def by (rule scaled_draws_add)
  have D2_ne: "D2 \<noteq> []" using n2 by (simp add: D2_def scaled_draws_def)
  have bl: "butlast (D1 @ D2) = D1 @ butlast D2" using D2_ne by (simp add: butlast_append)
  have sh: "\<And>a b. dm_val (t2 - M) ((of_int n2 - 1) * dt) (of_int n2 * dt) a b
      = dm_val (t2 - toff) ((of_int n - 1) * dt) (of_int n * dt) a b"
  proof -
    fix a b
    have ne: "(of_int n - 1) * dt \<noteq> of_int n * dt" using dt by (simp add: algebra_simps)
    have "dm_val (t2 - toff - of_int n1 * dt) ((of_int n - 1) * dt - of_int n1 * dt)
            (of_int n * dt - of_int n1 * dt) a b
        = dm_val (t2 - toff) ((of_int n - 1) * dt) (of_int n * dt) a b"
      by (rule dm_val_shift [OF ne])
    moreover have "t2 - toff - of_int n1 * dt = t2 - M" by (simp add: M_def)
    moreover have "(of_int n - 1) * dt - of_int n1 * dt = (of_int n2 - 1) * dt"
      by (simp add: n_sum algebra_simps)
    moreover have "of_int n * dt - of_int n1 * dt = of_int n2 * dt"
      by (simp add: n_sum algebra_simps)
    ultimately show "dm_val (t2 - M) ((of_int n2 - 1) * dt) (of_int n2 * dt) a b
      = dm_val (t2 - toff) ((of_int n - 1) * dt) (of_int n * dt) a b" by simp
  qed
  have L: "agn_steps g E t2 tau sf d1 \<lparr>rng_seed = seed, rng_pos = 0 + nat n1\<rparr> M
              (map (\<lambda>(s, d0). foldl (step (1 / 100) s) d0 D1) (zip sf zs))
       = Inr (map (\<lambda>(s, d0). dm_val (t2 - M) ((of_int n2 - 1) * dt) (of_int n2 * dt)
                  (foldl (step (1 / 100) s) d0 (butlast D2))
                  (foldl (step (1 / 100) s) d0 D2))
              (zip sf (map (\<lambda>(s, d0). foldl (step (1 / 100) s) d0 D1) (zip sf zs))),
          \<lparr>mjd = M + of_int n2 * dt,
           rng = \<lparr>rng_seed = seed, rng_pos = 0 + nat n1 + nat n2\<rparr>,
           dx = map (\<lambda>(s, d0). foldl (step (1 / 100) s) d0 D2)
                  (zip sf (map (\<lambda>(s, d0). foldl (step (1 / 100) s) d0 D1) (zip sf zs)))\<rparr>,
          if zip sf (map (\<lambda>(s, d0). foldl (step (1 / 100) s) d0 D1) (zip sf zs)) = [] then d1
          else Some (foldl (step (1 / 100)
                       (fst (last (zip sf (map (\<lambda>(s, d0). foldl (step (1 / 100) s) d0 D1) (zip sf zs))))))
                       (snd (last (zip sf (map (\<lambda>(s, d0). foldl (step (1 / 100) s) d0 D1) (zip sf zs)))))
                       (butlast D2)))"
  proof (rule agn_steps_run)
    show "tau \<noteq> 0" using tau by simp
    show "M \<le> t2" using Mlt by simp
    show "dt = tau / 100" by (rule dt_def)
    show "n2 = \<lceil>(t2 - M) / dt\<rceil>" by (rule n2_def)
    show "1 \<le> n2" by (rule n2)
    show "D2 = scaled_draws g seed (0 + nat n1) (nat n2)" by (simp add: D2_def)
  qed
  have R: "agn_steps g E t2 tau sf d1' \<lparr>rng_seed = seed, rng_pos = 0\<rparr> toff zs
       = Inr (map (\<lambda>(s, d0). dm_val (t2 - toff) ((of_int n - 1) * dt) (of_int n * dt)
                  (foldl (step (1 / 100) s) d0 (butlast (D1 @ D2)))
                  (foldl (step (1 / 100) s) d0 (D1 @ D2)))
              (zip sf zs),
          \<lparr>mjd = toff + of_int n * dt,
           rng = \<lparr>rng_seed = seed, rng_pos = 0 + nat n\<rparr>,
           dx = map (\<lambda>(s, d0). foldl (step (1 / 100) s) d0 (D1 @ D2)) (zip sf zs)\<rparr>,
          if zip sf zs = [] then d1'
          else Some (foldl (step (1 / 100) (fst (last (zip sf zs)))) (snd (last (zip sf zs)))
                       (butlast (D1 @ D2))))"
  proof (rule agn_steps_run)
    show "tau \<noteq> 0" using tau by simp
    show "toff \<le> t2" by (rule toff_le)
    show "dt = tau / 100" by (rule dt_def)
    show "n = \<lceil>(t2 - toff) / dt\<rceil>" by (rule n_def)
    show "1 \<le> n" by (rule n_pos)
    show "D1 @ D2 = scaled_draws g seed 0 (nat n)" by (rule D [symmetric])
  qed
  have eq: "map (\<lambda>(s, d0). dm_val (t2 - M) ((of_int n2 - 1) * dt) (of_int n2 * dt)
                  (foldl (step (1 / 100) s) d0 (butlast D2))
                  (foldl (step (1 / 100) s) d0 D2))
              (zip sf (map (\<lambda>(s, d0). foldl (step (1 / 100) s) d0 D1) (zip sf zs)))
       = map (\<lambda>(s, d0). dm_val (t2 - toff) ((of_int n - 1) * dt) (of_int n * dt)
                  (foldl (step (1 / 100) s) d0 (butlast (D1 @ D2)))
                  (foldl (step (1 / 100) s) d0 (D1 @ D2)))
              (zip sf zs)"
    unfolding zip_map_zip [of "\<lambda>s d. dm_val (t2 - M) ((of_int n2 - 1) * dt) (of_int n2 * dt)
                  (foldl (step (1 / 100) s) d (butlast D2))
                  (foldl (step (1 / 100) s) d D2)" sf
                  "\<lambda>s d0. foldl (step (1 / 100) s) d0 D1" zs]
    by (simp add: sh bl)
  show ?thesis
    unfolding D1_def [symmetric] M_def [symmetric] dt_def [symmetric]
    unfolding L R by (simp add: eq)
qed

lemma agn_one_resume:
  assumes c0: "map_of c0 (agn_ID seed sf tau toff) = None" and lt: "t1 < t2" and sf: "sf \<noteq> []"
  shows "map_sum id fst
           (agn_one g E2 t2 toff seed tau sf
              (case agn_one g E1 t1 toff seed tau sf c0 None of
                 Inl _ \<Rightarrow> c0 | Inr (_, c', _) \<Rightarrow> c') None)
       = map_sum id fst (agn_one g E2 t2 toff seed tau sf c0 None)"
proof -
  define k where "k = agn_ID seed sf tau toff"
  define n1 where "n1 = \<lceil>(t1 - toff) / (tau / 100)\<rceil>"
  let ?first = "agn_one g E1 t1 toff seed tau sf c0 None"
  let ?Z = "replicate 6 (0::real)"
  have Z: "?Z \<noteq> []" by simp
  show ?thesis
  proof (cases "seed < 0 \<or> 2 ^ 32 \<le> seed")
    case True
    then have "?first = Inl ValueError"
      using c0 by (simp add: agn_one_def agn_start_fresh)
    then show ?thesis by simp
  next
    case good: False
    then have start0: "\<And>t. agn_start c0 k seed toff t = Inr (\<lparr>rng_seed = seed, rng_pos = 0\<rparr>, toff, ?Z)"
      using c0 by (simp add: agn_start_fresh k_def)
    show ?thesis
    proof (cases "t1 < toff \<or> tau = 0 \<or> n1 < 1")
      case True
      then have "isl (agn_steps g E1 t1 tau sf None \<lparr>rng_seed = seed, rng_pos = 0\<rparr> toff ?Z)"
        using agn_steps_early [of t1 toff g E1 tau sf None] agn_steps_tau0 [of g E1 t1 sf None]
          agn_steps_few [OF _ sf Z, of t1 toff tau g E1] unfolding n1_def by blast
      then have "isl ?first"
        unfolding agn_one_def k_def [symmetric] start0 by (auto split: sum.splits)
      then show ?thesis by (cases ?first) auto
    next
      case False
      then have le: "toff \<le> t1" and tau0: "tau \<noteq> 0" and n1: "1 \<le> n1" by auto
      have tau: "0 < tau"
      proof (rule ccontr)
        assume "\<not> 0 < tau"
        with tau0 have "tau / 100 < 0" by simp
        with le have "(t1 - toff) / (tau / 100) \<le> 0"
          by (simp add: divide_nonneg_neg divide_le_0_iff)
        then have "n1 \<le> 0" unfolding n1_def by linarith
        with n1 show False by simp
      qed
      define D1 where "D1 = scaled_draws g seed 0 (nat n1)"
      define e1 where "e1 = \<lparr>mjd = toff + of_int n1 * (tau / 100),
           rng = \<lparr>rng_seed = seed, rng_pos = 0 + nat n1\<rparr>,
           dx = map (\<lambda>(s, d0). foldl (step (1 / 100) s) d0 D1) (zip sf ?Z)\<rparr>"
      obtain dms1 d1' where
        s1: "agn_steps g E1 t1 tau sf None \<lparr>rng_seed = seed, rng_pos = 0\<rparr> toff ?Z
               = Inr (dms1, e1, d1')"
        using agn_steps_run [OF tau0 le refl n1_def [unfolded atomize_eq] n1 D1_def [unfolded atomize_eq],
            of E1 sf None ?Z]
        unfolding e1_def by blast
      have first: "?first = Inr (dms1, agn_store c0 k e1, d1')"
        using s1 unfolding agn_one_def k_def [symmetric] start0 by simp
      define c1 where "c1 = agn_store c0 k e1"
      have c1k: "map_of c1 k = Some e1" by (simp add: c1_def map_of_agn_store)
      have goal: "map_sum id fst (agn_one g E2 t2 toff seed tau sf c1 None)
          = map_sum id fst (agn_one g E2 t2 toff seed tau sf c0 None)"
      proof (cases "mjd e1 < t2")
        case True
        have st: "agn_start c1 k seed toff t2 = Inr (rng e1, mjd e1, dx e1)"
          by (rule agn_start_resume [OF c1k True])
        have lt': "toff + of_int n1 * (tau / 100) < t2" using True by (simp add: e1_def)
        have "map_sum id fst (agn_steps g E2 t2 tau sf None (rng e1) (mjd e1) (dx e1))
            = map_sum id fst (agn_steps g E2 t2 tau sf None \<lparr>rng_seed = seed, rng_pos = 0\<rparr> toff ?Z)"
          using resumed_equals_direct [OF tau n1 n1_def [unfolded atomize_eq] lt', of g E2 sf None seed ?Z None]
          by (simp add: e1_def D1_def)
        then show ?thesis
          unfolding agn_one_def k_def [symmetric] st start0
          by (auto split: sum.splits)
      next
        case False
        have st: "agn_start c1 k seed toff t2 = Inr (\<lparr>rng_seed = seed, rng_pos = 0\<rparr>, toff, ?Z)"
          using agn_start_late [OF c1k False, of seed toff] good by simp
        show ?thesis
          unfolding agn_one_def k_def [symmetric] st start0
          by (auto split: sum.splits)
      qed
      show ?thesis unfolding first using goal by (simp add: c1_def)
    qed
  qed
qed

subsection \<open>A batch of one AGN at a scalar time\<close>

lemma read_agn_lt: "read_agn p ix = Inr obj \<Longrightarrow> ix < length (toff_arr p)"
  by (simp add: read_agn_def split: if_splits)

lemma read_agn_sf: "read_agn p ix = Inr (toff, seed, tau, sf) \<Longrightarrow> sf \<noteq> []"
  by (auto simp: read_agn_def split: if_splits)

lemma store_dm_scalar:
  "ix < n \<Longrightarrow> store_dm (zeros [6, n]) (Scalar t) ix i_time dms = Inr (dm_array n ix dms)"
  by (auto simp: store_dm_def zeros_def dm_array_def fun_eq_iff)

lemma applyAgn_single:
  assumes "read_agn p ix = Inr (toff, seed, tau, sf)"
  shows "applyAgn g c [ix] (Some p) (Scalar t) =
     (case agn_one g (Scalar t) t toff seed tau sf c None of
        Inl e \<Rightarrow> (Inl e, c)
      | Inr (dms, c', d) \<Rightarrow> (Inr (dm_array (length (toff_arr p)) ix dms), c'))"
  using assms read_agn_lt [OF assms]
  by (simp add: applyAgn_def store_dm_scalar split: sum.splits prod.splits)

lemma applyAgn_single_fst:
  assumes "read_agn p ix = Inr (toff, seed, tau, sf)"
  shows "fst (applyAgn g c [ix] (Some p) (Scalar t)) =
     map_sum id (dm_array (length (toff_arr p)) ix)
       (map_sum id fst (agn_one g (Scalar t) t toff seed tau sf c None))"
  unfolding applyAgn_single [OF assms] by (auto split: sum.splits)

lemma applyAgn_single_snd:
  assumes "read_agn p ix = Inr (toff, seed, tau, sf)"
  shows "snd (applyAgn g c [ix] (Some p) (Scalar t)) =
     (case agn_one g (Scalar t) t toff seed tau sf c None of
        Inl _ \<Rightarrow> c | Inr (_, c', _) \<Rightarrow> c')"
  unfolding applyAgn_single [OF assms] by (auto split: sum.splits)

lemma read_example: "read_agn example_agn 0 = Inr (0, 1, 100, [1, 1, 1, 1, 1, 1])"
  by (simp add: read_agn_def example_agn_def)

lemma replicate_six: "replicate 6 x = [x, x, x, x, x, x]"
  by (simp add: numeral_eq_Suc)

lemmas agn_eval =
  agn_one_def agn_start_def agn_steps_def agn_store_def reset_agn_lc_cache_def normal_def
  sqrt_hundredth step_def dm_val_def Let_def example_agn_def example_gauss_def upt_rec
  replicate_six

lemma example_first:
  "applyAgn example_gauss [] [0] (Some example_agn) (Scalar 5) =
     (Inr (dm_array 1 0 (replicate 6 (196054651 / 1000000000))),
      [(agn_ID 1 [1, 1, 1, 1, 1, 1] 100 0,
        \<lparr>mjd = 5, rng = \<lparr>rng_seed = 1, rng_pos = 5\<rparr>,
         dx = replicate 6 (196054651 / 1000000000)\<rparr>)])"
  unfolding applyAgn_single [OF read_example]
  by (simp add: agn_eval)

subsection \<open>Resuming from the cache\<close>

text \<open>
  Claim C1. Take an AGN that the cache does not hold yet, with start time \<open>toff\<close>, and
  times \<open>toff \<le> t1 < t2\<close>. Calling \<^verbatim>\<open>applyAgn\<close> at \<open>t1\<close> and then, with the cache that
  call left, at \<open>t2\<close> returns what a single call at \<open>t2\<close> on the original cache returns:
  the same six magnitude offsets, or the same exception. The first call leaves in the
  cache the end of its last step of length \<open>tau/100\<close>; when that is before \<open>t2\<close> the second
  call continues the same sequence of draws from there, and otherwise it starts again from
  \<open>toff\<close>. Numbers are reals here, so the two results are equal and not only close.
\<close>

theorem agn_resumability:
  assumes "read_agn p ix = Inr (toff, seed, tau, sfint)"
    and "map_of cache (agn_ID seed sfint tau toff) = None"
    and "toff \<le> t1" and "t1 < t2"
  shows "fst (applyAgn gauss (snd (applyAgn gauss cache [ix] (Some p) (Scalar t1)))
                [ix] (Some p) (Scalar t2))
       = fst (applyAgn gauss cache [ix] (Some p) (Scalar t2))"
  unfolding applyAgn_single_fst [OF assms(1)] applyAgn_single_snd [OF assms(1)]
  using agn_one_resume [OF assms(2) assms(4) read_agn_sf [OF assms(1)],
      of gauss "Scalar t2" "Scalar t1"]
  by simp

theorem agn_resumability_witness:
  "read_agn example_agn 0 = Inr (0, 1, 100, [1, 1, 1, 1, 1, 1]) \<and>
   map_of [] (agn_ID 1 [1, 1, 1, 1, 1, 1] 100 0) = None \<and> (0::real) \<le> 5 / 2 \<and> (5 / 2 :: real) < 5 \<and>
   fst (applyAgn example_gauss
          (snd (applyAgn example_gauss [] [0] (Some example_agn) (Scalar (5 / 2))))
          [0] (Some example_agn) (Scalar 5))
     = Inr (dm_array 1 0 (replicate 6 (196054651 / 1000000000)))"
proof -
  have a: "read_agn example_agn 0 = Inr (0, 1, 100, [1, 1, 1, 1, 1, 1])" by (rule read_example)
  have b: "map_of [] (agn_ID 1 [1, 1, 1, 1, 1, 1] 100 0) = None" by simp
  have c: "(0::real) \<le> 5 / 2" by simp
  have d: "(5 / 2 :: real) < 5" by simp
  from agn_resumability [OF a b c d, of example_gauss] show ?thesis
    using a example_first by simp
qed

subsection \<open>A request that is not later than the cached time\<close>




end
